theory Spec2Isabelle
  imports Main
begin

section \<open>Python values, errors and built-ins used by the converters\<close>

text \<open>
  Exceptions of the source are values: a function that can raise returns
  \<open>error + 'a\<close>, with \<open>Inl\<close> for the exception that propagates.
  \<open>External\<close> is an exception raised by a library or a collaborator;
  \<open>NotModelled\<close> marks a use of a built-in outside the fragment modelled.
\<close>

datatype error =
    KeyError string
  | IndexError
  | ValueError
  | TypeError
  | AttributeError
  | NotModelled
  | External string

definition then_do :: "error + 'a \<Rightarrow> ('a \<Rightarrow> error + 'b) \<Rightarrow> error + 'b" where
  "then_do m f = (case m of Inl e \<Rightarrow> Inl e | Inr x \<Rightarrow> f x)"

text \<open>
  JSON-like values: what \<open>json.dump\<close> receives. A Python dict keeps insertion
  order, so an object is an association list.
\<close>

datatype json =
    JNull
  | JInt int
  | JStr string
  | JArr "json list"
  | JObj "(string \<times> json) list"

text \<open>\<open>d[k]\<close> on a dict: the value, or KeyError.\<close>

definition dict_get :: "(string \<times> 'a) list \<Rightarrow> string \<Rightarrow> error + 'a" where
  "dict_get d k = (case map_of d k of None \<Rightarrow> Inl (KeyError k) | Some v \<Rightarrow> Inr v)"

text \<open>\<open>d[k] = v\<close> on a dict: replaces in place, or appends a new key at the end.\<close>

fun dict_set :: "(string \<times> 'a) list \<Rightarrow> string \<Rightarrow> 'a \<Rightarrow> (string \<times> 'a) list" where
  "dict_set [] k v = [(k, v)]"
| "dict_set ((k', v') # d) k v = (if k' = k then (k, v) # d else (k', v') # dict_set d k v)"

text \<open>\<open>xs[i]\<close> for a literal index \<open>i \<ge> 0\<close>: the element, or IndexError.\<close>

definition py_index :: "'a list \<Rightarrow> nat \<Rightarrow> error + 'a" where
  "py_index xs i = (if i < length xs then Inr (xs ! i) else Inl IndexError)"

text \<open>
  \<open>s.split(sep)\<close> for a non-empty separator: the pieces between the leftmost,
  non-overlapping occurrences of \<open>sep\<close>, scanning from the left. (Python raises
  ValueError for an empty separator; every call of the source passes a non-empty
  literal, and \<open>str_split\<close> is left unspecified there.)
\<close>

fun str_split :: "string \<Rightarrow> string \<Rightarrow> string list" where
  "str_split (s # ss) [] = [[]]"
| "str_split (s # ss) (c # cs) =
     (if take (Suc (length ss)) (c # cs) = s # ss
      then [] # str_split (s # ss) (drop (length ss) cs)
      else (case str_split (s # ss) cs of
              [] \<Rightarrow> [[c]]
            | p # ps \<Rightarrow> (c # p) # ps))"

text \<open>\<open>sep.join(xs)\<close> on a list of strings.\<close>

fun str_join :: "string \<Rightarrow> string list \<Rightarrow> string" where
  "str_join sep [] = []"
| "str_join sep [x] = x"
| "str_join sep (x # y # ys) = x @ sep @ str_join sep (y # ys)"

section \<open>Raw value-set records\<close>

text \<open>
  One concept entry of \<open>value_set['ns0:ConceptList']['ns0:Concept']\<close>, and the
  raw record: the keys the converters read, typed as the data model of the
  specification gives them. \<open>vs_columns\<close> holds any further keys of the dict
  (the \<open>valueSet.*\<close> columns that \<open>vsac_to_fhir\<close> reads), each a sequence.
\<close>

record concept =
  c_code :: string
  c_codeSystemName :: string

record value_set =
  vs_displayName :: string
  vs_ID :: string
  vs_version :: string
  vs_Purpose :: string
  vs_RevisionDate :: string
  vs_Source :: string
  vs_Type :: string
  vs_Concept :: "concept list"
  vs_columns :: "(string \<times> string list) list"

text \<open>
  Readings of the wall clock: \<open>datetime.now()\<close> rendered the three ways the
  source renders it. One reading stands for all reads of a run.
\<close>

record clock =
  ymd_slash :: string
  ymd_dot :: string
  now_str :: string

section \<open>Schema B: \<open>vsac_to_vsac\<close>\<close>

text \<open>
  \<open>purposes[0].split(label)[1]\<close>: all four sub-fields of the source index
  \<open>purposes[0]\<close>.
\<close>

definition after_label :: "string list \<Rightarrow> nat \<Rightarrow> string \<Rightarrow> error + string" where
  "after_label purposes i label =
     then_do (py_index purposes i) (\<lambda>clause. py_index (str_split label clause) 1)"

definition vsac_to_vsac :: "clock \<Rightarrow> value_set \<Rightarrow> error + (string \<times> json) list" where
  "vsac_to_vsac clk v =
    (let purposes = str_split ''),'' (vs_Purpose v) in
     then_do (after_label purposes 0 ''(Clinical Focus: '') (\<lambda>clinical_focus.
     then_do (after_label purposes 0 ''(Inclusion Criteria: '') (\<lambda>inclusion_criteria.
     then_do (after_label purposes 0 ''(Data Element Scope: '') (\<lambda>data_element_scope.
     then_do (after_label purposes 0 ''(Exclusion Criteria: '') (\<lambda>exclusion_criteria.
     Inr
      [(''Concept Set Name'', JStr (vs_displayName v)),
       (''Created At'', JStr (''vsacToOmopConversion:'' @ ymd_slash clk @
                              ''; vsacRevision:'' @ vs_RevisionDate v)),
       (''Created By'', JStr (vs_Source v)),
       (''Intention'', JObj
          [(''Clinical Focus'', JStr clinical_focus),
           (''Inclusion Criteria'', JStr inclusion_criteria),
           (''Data Element Scope'', JStr data_element_scope),
           (''Exclusion Criteria'', JStr exclusion_criteria)]),
       (''Limitations'', JObj
          [(''Exclusion Criteria'', JStr ''''),
           (''VSAC Note'', JNull)]),
       (''Provenance'', JObj
          [(''VSAC Steward'', JStr ''''),
           (''OID'', JStr ''''),
           (''Code System(s)'', JArr []),
           (''Definition Type'', JStr ''''),
           (''Definition Version'', JStr '''')])])))))"

section \<open>Tabular flattener: \<open>get_csv\<close>\<close>

record provenance =
  p_VSAC_Steward :: string
  p_OID :: string
  p_Code_Systems :: string
  p_Definition_Type :: string
  p_Definition_Version :: string
  p_Accessed :: string

text \<open>
  One row of the table. \<open>r_intention\<close> holds the slice \<open>purposes[0:2]\<close>; the
  source stores Python's rendering \<open>str(...)\<close> of that list.
\<close>

record row =
  r_name :: string
  r_nameVSAC :: string
  r_oid :: string
  r_codeSystem :: string
  r_codes :: string
  r_limitations :: string
  r_intention :: "string list"
  r_provenance :: provenance

text \<open>\<open>d[k].append(x)\<close>: the list stored under \<open>k\<close> grows at its end.\<close>

definition dict_append :: "(string \<times> 'a list) list \<Rightarrow> string \<Rightarrow> 'a \<Rightarrow> (string \<times> 'a list) list" where
  "dict_append d k x = map (\<lambda>(k', xs). if k' = k then (k', xs @ [x]) else (k', xs)) d"

text \<open>The first inner loop: concept entries grouped by code-system name.\<close>

fun code_system_codes :: "concept list \<Rightarrow> (string \<times> string list) list \<Rightarrow> (string \<times> string list) list" where
  "code_system_codes [] d = d"
| "code_system_codes (concept_dict # rest) d =
     (let code = c_code concept_dict;
          code_system = c_codeSystemName concept_dict;
          d1 = (if map_of d code_system = None then dict_set d code_system [] else d)
      in code_system_codes rest (dict_append d1 code_system code))"

text \<open>A loop whose body can raise: the first exception ends it.\<close>

fun map_err :: "('a \<Rightarrow> error + 'b) \<Rightarrow> 'a list \<Rightarrow> error + 'b list" where
  "map_err f [] = Inr []"
| "map_err f (x # xs) =
     then_do (f x) (\<lambda>y. then_do (map_err f xs) (\<lambda>ys. Inr (y # ys)))"

text \<open>The row of one (record, code system) pair; \<open>purposes[3]\<close> can raise.\<close>

definition make_row ::
  "clock \<Rightarrow> string \<Rightarrow> value_set \<Rightarrow> string list \<Rightarrow> (string \<times> string list) list \<Rightarrow>
   string \<times> string list \<Rightarrow> error + row" where
  "make_row clk code_delimiter v purposes groups item =
     (case item of (code_system, codes) \<Rightarrow>
        then_do (py_index purposes 3) (\<lambda>limitations.
        Inr \<lparr>r_name = vs_displayName v,
             r_nameVSAC = ''[VSAC] '' @ vs_displayName v,
             r_oid = vs_ID v,
             r_codeSystem = code_system,
             r_codes = str_join code_delimiter codes,
             r_limitations = limitations,
             r_intention = take 2 purposes,
             r_provenance =
               \<lparr>p_VSAC_Steward = vs_Source v,
                p_OID = vs_ID v,
                p_Code_Systems = str_join '','' (map fst groups),
                p_Definition_Type = vs_Type v,
                p_Definition_Version = vs_version v,
                p_Accessed = take (length (now_str clk) - 7) (now_str clk)\<rparr>\<rparr>))"

text \<open>The body of the outer loop: the rows one record contributes.\<close>

definition value_set_rows :: "clock \<Rightarrow> string \<Rightarrow> value_set \<Rightarrow> error + row list" where
  "value_set_rows clk code_delimiter v =
     (let purposes = str_split ''),'' (vs_Purpose v);
          groups = code_system_codes (vs_Concept v) []
      in map_err (make_row clk code_delimiter v purposes groups) groups)"

text \<open>
  Lines 88 to 119 of \<open>get_csv\<close>: the outer loop, which builds the rows of the
  table. The rest of \<open>get_csv\<close>, which writes the table, follows the definition
  of the file system below.
\<close>

definition table_rows :: "clock \<Rightarrow> value_set list \<Rightarrow> string \<Rightarrow> error + row list" where
  "table_rows clk value_sets code_delimiter =
     then_do (map_err (value_set_rows clk code_delimiter) value_sets) (\<lambda>rss. Inr (concat rss))"





section \<open>Ticket client: \<open>vsac_api.py\<close>\<close>

text \<open>
  \<open>requests.post\<close>: the network is data, the response the server gives to each
  request. A request with no response raises (a connection error); a response of
  any status is returned as it is.
\<close>

record request =
  rq_url :: string
  rq_data :: "(string \<times> string) list"
  rq_headers :: "(string \<times> string) list"

record response =
  rs_status_code :: nat
  rs_text :: string

type_synonym network = "(request \<times> response) list"

definition requests_post :: "network \<Rightarrow> request \<Rightarrow> error + response" where
  "requests_post net req =
     (case map_of net req of
        None \<Rightarrow> Inl (External ''ConnectionError'')
      | Some resp \<Rightarrow> Inr resp)"

definition service_ticket_request :: "string \<Rightarrow> request" where
  "service_ticket_request tgt =
     \<lparr>rq_url = ''https://utslogin.nlm.nih.gov/cas/v1/tickets/'' @ tgt,
      rq_data = [(''service'', ''http://umlsks.nlm.nih.gov'')],
      rq_headers = [(''Content-type'', ''application/x-www-form-urlencoded'')]\<rparr>"

definition get_service_ticket :: "network \<Rightarrow> string \<Rightarrow> error + string" where
  "get_service_ticket net tgt =
     then_do (requests_post net (service_ticket_request tgt)) (\<lambda>response2.
     Inr (rs_text response2))"

text \<open>
  \<open>BeautifulSoup(text, 'html.parser')\<close> and \<open>urllib3.util.parse_url\<close> are
  libraries: the model takes them as parameters. \<open>parse_html\<close> gives the tags of
  a document in document order, so that \<open>soup.find('form')\<close> is the first tag
  named \<open>form\<close>; \<open>url_path\<close> gives the \<open>path\<close> of the parsed URL, which is
  \<open>None\<close> for a URL without one, or the parser's exception.
\<close>

record tag =
  tag_name :: string
  tag_attrs :: "(string \<times> string) list"

definition api_key_request :: "string \<Rightarrow> request" where
  "api_key_request api_key =
     \<lparr>rq_url = ''https://utslogin.nlm.nih.gov/cas/v1/api-key'',
      rq_data = [(''apikey'', api_key)],
      rq_headers = []\<rparr>"

text \<open>\<open>xs[-1]\<close>.\<close>

definition py_last :: "'a list \<Rightarrow> error + 'a" where
  "py_last xs = (if xs = [] then Inl IndexError else Inr (last xs))"

definition get_ticket_granting_ticket ::
  "(string \<Rightarrow> tag list) \<Rightarrow> (string \<Rightarrow> error + string option) \<Rightarrow> network \<Rightarrow> string \<Rightarrow>
   error + string" where
  "get_ticket_granting_ticket parse_html url_path net api_key =
     then_do (requests_post net (api_key_request api_key)) (\<lambda>response.
     (case find (\<lambda>t. tag_name t = ''form'') (parse_html (rs_text response)) of
        None \<Rightarrow> Inl AttributeError
      | Some form \<Rightarrow>
          then_do (dict_get (tag_attrs form) ''action'') (\<lambda>tgt_url.
          then_do (url_path tgt_url) (\<lambda>path.
          (case path of
             None \<Rightarrow> Inl AttributeError
           | Some p \<Rightarrow> py_last (str_split ''/'' p))))))"

text \<open>The specification's words: the substring after the last \<open>/\<close> of a path.\<close>

definition after_last_slash :: "string \<Rightarrow> string" where
  "after_last_slash p = rev (takeWhile (\<lambda>c. c \<noteq> CHR ''/'') (rev p))"

section \<open>Schema A: \<open>vsac_to_fhir\<close>\<close>

text \<open>\<open>value_set[k][0]\<close>: the first entry of a column of the record.\<close>

definition column0 :: "value_set \<Rightarrow> string \<Rightarrow> error + string" where
  "column0 v k = then_do (dict_get (vs_columns v) k) (\<lambda>column. py_index column 0)"

text \<open>
  \<open>int(s)\<close> on an ASCII string: surrounding whitespace (tab, line feed,
  vertical tab, form feed, carriage return, space) is dropped, then an optional
  sign and decimal digits, where single underscores may separate digits.
\<close>

definition is_space :: "char \<Rightarrow> bool" where
  "is_space c = ((of_char c :: nat) \<in> {9, 10, 11, 12, 13, 32})"

definition is_digit :: "char \<Rightarrow> bool" where
  "is_digit c = (48 \<le> (of_char c :: nat) \<and> (of_char c :: nat) \<le> 57)"

definition digit_value :: "char \<Rightarrow> int" where
  "digit_value c = int (of_char c) - 48"

definition str_strip :: "string \<Rightarrow> string" where
  "str_strip s = rev (dropWhile is_space (rev (dropWhile is_space s)))"

fun py_digits :: "string \<Rightarrow> int \<Rightarrow> error + int" where
  "py_digits [] acc = Inr acc"
| "py_digits (c # cs) acc =
     (if is_digit c then py_digits cs (10 * acc + digit_value c)
      else if c = CHR ''_'' \<and> cs \<noteq> [] \<and> is_digit (hd cs) then py_digits cs acc
      else Inl ValueError)"

definition py_unsigned :: "string \<Rightarrow> error + int" where
  "py_unsigned s =
     (case s of
        [] \<Rightarrow> Inl ValueError
      | c # cs \<Rightarrow> if is_digit c then py_digits s 0 else Inl ValueError)"

definition py_int :: "string \<Rightarrow> error + int" where
  "py_int s =
     (case str_strip s of
        [] \<Rightarrow> Inl ValueError
      | c # cs \<Rightarrow>
          if c = CHR ''-'' then then_do (py_unsigned cs) (\<lambda>n. Inr (- n))
          else if c = CHR ''+'' then py_unsigned cs
          else py_unsigned (c # cs))"

text \<open>
  \<open>fmt.format(*args)\<close> with string arguments, for format strings made of
  literal text, the escapes \<open>{{\<close> and \<open>}}\<close>, and automatically numbered
  fields \<open>{}\<close>. A field that names or numbers its argument, or carries a
  conversion or a format specification, is outside this fragment: the model
  answers \<open>NotModelled\<close>.
\<close>

fun py_format :: "string \<Rightarrow> string list \<Rightarrow> error + string" where
  "py_format [] args = Inr []"
| "py_format (c # cs) args =
     (if c = CHR ''{'' then
        (case cs of
           [] \<Rightarrow> Inl ValueError
         | c' # cs' \<Rightarrow>
             if c' = CHR ''{'' then then_do (py_format cs' args) (\<lambda>r. Inr (CHR ''{'' # r))
             else if c' = CHR ''}'' then
               (case args of
                  [] \<Rightarrow> Inl IndexError
                | a # args' \<Rightarrow> then_do (py_format cs' args') (\<lambda>r. Inr (a @ r)))
             else if CHR ''}'' \<in> set cs' then Inl NotModelled
             else Inl ValueError)
      else if c = CHR ''}'' then
        (case cs of
           [] \<Rightarrow> Inl ValueError
         | c' # cs' \<Rightarrow>
             if c' = CHR ''}'' then then_do (py_format cs' args) (\<lambda>r. Inr (CHR ''}'' # r))
             else Inl ValueError)
      else then_do (py_format cs args) (\<lambda>r. Inr (c # r)))"

text \<open>
  \<open>FHIR_JSON_TEMPLATE\<close> is a module-level dict defined outside the sources at
  hand; the model takes it as a parameter of the shape the converter relies on.
  \<open>copy(FHIR_JSON_TEMPLATE)\<close> is a shallow copy: the new dict owns its
  top-level entries, but the dicts under \<open>'text'\<close> and \<open>'compose'\<close> are the
  template's own objects, shared by every copy. The store holds these two objects;
  a converted dict is its own top-level entries (all keys but \<open>'text'\<close> and
  \<open>'compose'\<close>) together with references to the two.
\<close>

record template_store =
  text_obj :: "(string \<times> json) list"
  compose_obj :: "(string \<times> json) list"

type_synonym 'a stepper = "template_store \<Rightarrow> (error + 'a) \<times> template_store"

definition seq :: "'a stepper \<Rightarrow> ('a \<Rightarrow> 'b stepper) \<Rightarrow> 'b stepper" where
  "seq m f st = (case m st of (Inl e, st') \<Rightarrow> (Inl e, st') | (Inr x, st') \<Rightarrow> f x st')"

definition pure :: "error + 'a \<Rightarrow> 'a stepper" where
  "pure r st = (r, st)"

text \<open>
  \<open>s.format\<close>: only a string has the method, and the method is looked up
  before the arguments of the call are evaluated.
\<close>

definition format_method :: "json \<Rightarrow> error + string" where
  "format_method j = (case j of JStr fmt \<Rightarrow> Inr fmt | _ \<Rightarrow> Inl AttributeError)"

text \<open>\<open>d['text']['div'] = d['text']['div'].format(description)\<close>, on the shared dict.\<close>

definition format_text_div :: "value_set \<Rightarrow> unit stepper" where
  "format_text_div v st =
     (case then_do (dict_get (text_obj st) ''div'') (\<lambda>text_div.
           then_do (format_method text_div) (\<lambda>fmt.
           then_do (column0 v ''valueSet.description'') (\<lambda>description.
           py_format fmt [description]))) of
        Inl e \<Rightarrow> (Inl e, st)
      | Inr r \<Rightarrow> (Inr (), st\<lparr>text_obj := dict_set (text_obj st) ''div'' (JStr r)\<rparr>))"

text \<open>
  \<open>d['compose']['include'][0][k] = x\<close>, on the shared dict: the first element of
  the list under \<open>'include'\<close> must be a dict.
\<close>

definition set_include0 :: "string \<Rightarrow> json \<Rightarrow> unit stepper" where
  "set_include0 k x st =
     (case dict_get (compose_obj st) ''include'' of
        Inl e \<Rightarrow> (Inl e, st)
      | Inr (JArr []) \<Rightarrow> (Inl IndexError, st)
      | Inr (JArr (JObj inc0 # others)) \<Rightarrow>
          (Inr (), st\<lparr>compose_obj :=
             dict_set (compose_obj st) ''include'' (JArr (JObj (dict_set inc0 k x) # others))\<rparr>)
      | Inr (JObj other_dict) \<Rightarrow> (Inl (KeyError ''0''), st)
      | Inr (JStr []) \<Rightarrow> (Inl IndexError, st)
      | Inr _ \<Rightarrow> (Inl TypeError, st))"

definition vsac_to_fhir :: "(string \<times> json) list \<Rightarrow> value_set \<Rightarrow> (string \<times> json) list stepper" where
  "vsac_to_fhir template_fields value_set =
     (let d = template_fields in
      seq (pure (then_do (column0 value_set ''valueSet.id'') py_int)) (\<lambda>n.
      let d = dict_set d ''id'' (JInt n) in
      seq (format_text_div value_set) (\<lambda>_.
      seq (pure (then_do (dict_get d ''url'') (\<lambda>url.
                 then_do (format_method url) (\<lambda>fmt.
                 then_do (column0 value_set ''valueSet.id'') (\<lambda>i.
                 py_format fmt [i]))))) (\<lambda>url.
      let d = dict_set d ''url'' (JStr url) in
      seq (pure (column0 value_set ''valueSet.name'')) (\<lambda>name.
      let d = dict_set d ''name'' (JStr name) in
      seq (pure (column0 value_set ''valueSet.name'')) (\<lambda>title.
      let d = dict_set d ''title'' (JStr title) in
      seq (pure (column0 value_set ''valueSet.status'')) (\<lambda>status.
      let d = dict_set d ''status'' (JStr status) in
      seq (pure (column0 value_set ''valueSet.description'')) (\<lambda>description.
      let d = dict_set d ''description'' (JStr description) in
      seq (pure (column0 value_set ''valueSet.codeSystem'')) (\<lambda>system.
      seq (set_include0 ''system'' (JStr system)) (\<lambda>_.
      seq (pure (column0 value_set ''valueSet.codeSystemVersion'')) (\<lambda>version.
      seq (set_include0 ''version'' (JStr version)) (\<lambda>_.
      seq (set_include0 ''concept'' (JArr [])) (\<lambda>_.
      pure (Inr d))))))))))))))"

text \<open>
  What \<open>json.dump\<close> writes for a converted dict at a given moment: its own
  entries, and the shared objects as they are then (listed last here; their place
  among the keys is the one they have in the template).
\<close>

definition fhir_json :: "template_store \<Rightarrow> (string \<times> json) list \<Rightarrow> json" where
  "fhir_json st d =
     JObj (d @ [(''text'', JObj (text_obj st)), (''compose'', JObj (compose_obj st))])"

text \<open>The JSON of a record converted from a given state of the template.\<close>

definition converted_json :: "(string \<times> json) list \<Rightarrow> value_set \<Rightarrow> template_store \<Rightarrow> error + json" where
  "converted_json template_fields value_set st =
     (case vsac_to_fhir template_fields value_set st of
        (Inl e, st') \<Rightarrow> Inl e
      | (Inr d, st') \<Rightarrow> Inr (fhir_json st' d))"

section \<open>Run orchestrator: \<open>run\<close>\<close>

text \<open>
  The cache file, when it is a file: a pickle of a record list, or anything else.
  \<open>pickle.dump\<close> and \<open>pickle.load\<close> are the library's: the model takes it
  that loading a pickle gives back the pickled list, and that loading anything
  else raises.
\<close>

datatype cache_file = Pickled "value_set list" | Not_a_pickle

definition pickle_load :: "cache_file \<Rightarrow> error + value_set list" where
  "pickle_load f = (case f of Pickled vs \<Rightarrow> Inr vs | Not_a_pickle \<Rightarrow> Inl (External ''UnpicklingError''))"

text \<open>
  A converted dict of \<open>d_list\<close>: one made from the template, which shares the
  template's nested objects, or a dict of its own.
\<close>

datatype artifact = Templated "(string \<times> json) list" | Plain "(string \<times> json) list"

datatype event =
    Read_sheet
  | Request_grant
  | Fetch_value_sets "string list" string
  | Load_cache
  | Store_cache "value_set list"
  | Make_dir string
  | Write_table string string "row list"
  | Write_json string "int option" json

definition is_network :: "event \<Rightarrow> bool" where
  "is_network ev =
     (case ev of
        Read_sheet \<Rightarrow> True
      | Request_grant \<Rightarrow> True
      | Fetch_value_sets object_ids tgt \<Rightarrow> True
      | _ \<Rightarrow> False)"

text \<open>
  The collaborators of one run: the \<open>OID\<close> column of the sheet
  (\<open>get_sheets_data\<close>), the grant (\<open>get_ticket_granting_ticket\<close>), the batched
  fetch (\<open>get_value_sets\<close>), each of which may raise; the clock; the top-level
  entries of the template; the configured \<open>OUTPUT_DIR\<close>; and pandas'
  \<open>df.to_csv(outpath, sep=field_delimiter, index=False)\<close>, a library call that
  is given the path, the separator and the rows of the table, and answers with the
  exception it raises, if any (the csv writer it builds refuses, for one, a
  separator that is not a single character).
\<close>

record env =
  e_sheet_oids :: "error + string list"
  e_tgt :: "error + string"
  e_get_value_sets :: "string list \<Rightarrow> string \<Rightarrow> error + (string \<times> (string \<times> value_set list) list) list"
  e_clock :: clock
  e_template_fields :: "(string \<times> json) list"
  e_output_dir :: string
  e_to_csv :: "string \<Rightarrow> string \<Rightarrow> row list \<Rightarrow> error option"

text \<open>
  What a run changes: the cache file (\<open>None\<close> when there is no such file), the
  template's shared objects, the directories that exist, and the trace of reads,
  requests and writes. Errors of the file system itself are not modelled.
\<close>

record world =
  w_cache :: "cache_file option"
  w_store :: template_store
  w_dirs :: "string list"
  w_events :: "event list"

definition log_event :: "event \<Rightarrow> world \<Rightarrow> world" where
  "log_event ev w = w\<lparr>w_events := w_events w @ [ev]\<rparr>"

text \<open>
  \<open>os.path.join(a, b)\<close> on POSIX paths: an absolute \<open>b\<close> stands alone;
  otherwise one \<open>/\<close> separates the parts unless \<open>a\<close> is empty or ends with one.
\<close>

definition os_path_join :: "string \<Rightarrow> string \<Rightarrow> string" where
  "os_path_join a b =
     (if b \<noteq> [] \<and> hd b = CHR ''/'' then b
      else if a = [] \<or> last a = CHR ''/'' then a @ b
      else a @ ''/'' @ b)"

definition outdir_of :: "env \<Rightarrow> string" where
  "outdir_of env = os_path_join (e_output_dir env) (ymd_dot (e_clock env))"

definition outpath_of :: "env \<Rightarrow> string" where
  "outpath_of env = os_path_join (outdir_of env) ''list_of_codes.tsv''"

text \<open>
  \<open>get_csv\<close>: the rows (lines 88 to 119), then lines 122 to 127: the directory
  of the day is made unless it exists, and the table is handed to \<open>to_csv\<close> with
  \<open>field_delimiter\<close>. The table is returned when \<open>to_csv\<close> has not raised.
  The event \<open>Write_table\<close> records the call of \<open>to_csv\<close>, whatever its outcome.
\<close>

definition get_csv ::
  "env \<Rightarrow> value_set list \<Rightarrow> string \<Rightarrow> string \<Rightarrow> world \<Rightarrow> (error + row list) \<times> world" where
  "get_csv env value_sets field_delimiter code_delimiter w =
     (case table_rows (e_clock env) value_sets code_delimiter of
        Inl e \<Rightarrow> (Inl e, w)
      | Inr rows \<Rightarrow>
          let outdir = outdir_of env;
              w1 = (if outdir \<in> set (w_dirs w) then w
                    else log_event (Make_dir outdir) (w\<lparr>w_dirs := w_dirs w @ [outdir]\<rparr>));
              outpath = outpath_of env;
              w2 = log_event (Write_table outpath field_delimiter rows) w1
          in (case e_to_csv env outpath field_delimiter rows of
                Some e \<Rightarrow> (Inl e, w2)
              | None \<Rightarrow> (Inr rows, w2)))"

text \<open>The fetch of lines 154 to 168, ending with the write of the cache.\<close>

definition fetch :: "env \<Rightarrow> world \<Rightarrow> (error + value_set list) \<times> world" where
  "fetch env w =
     (let w1 = log_event Read_sheet w in
      case e_sheet_oids env of
        Inl e \<Rightarrow> (Inl e, w1)
      | Inr oids \<Rightarrow>
          let object_ids = filter (\<lambda>x. x \<noteq> '''') oids;
              w2 = log_event Request_grant w1 in
          (case e_tgt env of
             Inl e \<Rightarrow> (Inl e, w2)
           | Inr tgt \<Rightarrow>
               let w3 = log_event (Fetch_value_sets object_ids tgt) w2 in
               (case then_do (e_get_value_sets env object_ids tgt) (\<lambda>value_sets_dict.
                     then_do (dict_get value_sets_dict ''ns0:RetrieveMultipleValueSetsResponse'') (\<lambda>r.
                     dict_get r ''ns0:DescribedValueSet'')) of
                  Inl e \<Rightarrow> (Inl e, w3)
                | Inr value_sets \<Rightarrow>
                    (Inr value_sets,
                     log_event (Store_cache value_sets) (w3\<lparr>w_cache := Some (Pickled value_sets)\<rparr>)))))"

text \<open>
  Lines 145 to 168: the records of the run, from the cache or fetched. With
  caching enabled and no cache file the source clears \<open>use_cache\<close>, so that
  the fetch runs as it does with caching disabled.
\<close>

definition load_or_fetch :: "env \<Rightarrow> bool \<Rightarrow> world \<Rightarrow> (error + value_set list) \<times> world" where
  "load_or_fetch env use_cache w =
     (if use_cache then
        (case w_cache w of
           Some f \<Rightarrow>
             (case pickle_load f of
                Inl e \<Rightarrow> (Inl e, log_event Load_cache w)
              | Inr value_sets \<Rightarrow> (Inr value_sets, log_event Load_cache w))
         | None \<Rightarrow> fetch env w)
      else fetch env w)"

text \<open>The body of the conversion loop, and the loop.\<close>

definition convert_one :: "env \<Rightarrow> string \<Rightarrow> value_set \<Rightarrow> artifact stepper" where
  "convert_one env format value_set st =
     (if format = ''fhir'' then
        (case vsac_to_fhir (e_template_fields env) value_set st of
           (Inl e, st') \<Rightarrow> (Inl e, st')
         | (Inr d, st') \<Rightarrow> (Inr (Templated d), st'))
      else if format = ''omop'' then
        (case vsac_to_vsac (e_clock env) value_set of
           Inl e \<Rightarrow> (Inl e, st)
         | Inr d \<Rightarrow> (Inr (Plain d), st))
      else (Inr (Plain []), st))"

fun convert_all :: "env \<Rightarrow> string \<Rightarrow> value_set list \<Rightarrow> artifact list stepper" where
  "convert_all env format [] st = (Inr [], st)"
| "convert_all env format (value_set # rest) st =
     (case convert_one env format value_set st of
        (Inl e, st') \<Rightarrow> (Inl e, st')
      | (Inr value_set2, st') \<Rightarrow>
          (case convert_all env format rest st' of
             (Inl e, st'') \<Rightarrow> (Inl e, st'')
           | (Inr d_list, st'') \<Rightarrow> (Inr (value_set2 # d_list), st'')))"

text \<open>\<open>d['name']\<close>, which must be a string to be joined with \<open>'.json'\<close>.\<close>

definition artifact_name :: "artifact \<Rightarrow> error + string" where
  "artifact_name d =
     then_do (dict_get (case d of Templated own \<Rightarrow> own | Plain own \<Rightarrow> own) ''name'') (\<lambda>n.
     (case n of JStr valueset_name \<Rightarrow> Inr valueset_name | _ \<Rightarrow> Inl TypeError))"

definition artifact_json :: "template_store \<Rightarrow> artifact \<Rightarrow> json" where
  "artifact_json st d = (case d of Templated own \<Rightarrow> fhir_json st own | Plain own \<Rightarrow> JObj own)"

text \<open>The save loop: one file per converted dict, written when its turn comes.\<close>

fun write_all :: "int \<Rightarrow> artifact list \<Rightarrow> world \<Rightarrow> error option \<times> world" where
  "write_all json_indent [] w = (None, w)"
| "write_all json_indent (d # rest) w =
     (case artifact_name d of
        Inl e \<Rightarrow> (Some e, w)
      | Inr valueset_name \<Rightarrow>
          write_all json_indent rest
            (log_event
               (Write_json (valueset_name @ ''.json'')
                  (if json_indent \<noteq> 0 then Some json_indent else None)
                  (artifact_json (w_store w) d))
               w))"

text \<open>Lines 170 to 192: the artefact of the run.\<close>

definition produce ::
  "env \<Rightarrow> string \<Rightarrow> string \<Rightarrow> string \<Rightarrow> string \<Rightarrow> int \<Rightarrow> value_set list \<Rightarrow> world \<Rightarrow>
   error option \<times> world" where
  "produce env artefact format field_delimiter code_delimiter json_indent value_sets w =
     (if artefact = ''tsv_code'' then
        (case get_csv env value_sets field_delimiter code_delimiter w of
           (Inl e, w1) \<Rightarrow> (Some e, w1)
         | (Inr df, w1) \<Rightarrow> (None, w1))
      else if artefact = ''json'' then
        (case convert_all env format value_sets (w_store w) of
           (Inl e, st) \<Rightarrow> (Some e, w\<lparr>w_store := st\<rparr>)
         | (Inr d_list, st) \<Rightarrow> write_all json_indent d_list (w\<lparr>w_store := st\<rparr>))
      else (None, w))"

definition run ::
  "env \<Rightarrow> string \<Rightarrow> string \<Rightarrow> string \<Rightarrow> string \<Rightarrow> int \<Rightarrow> bool \<Rightarrow> world \<Rightarrow> error option \<times> world" where
  "run env artefact format field_delimiter code_delimiter json_indent use_cache w =
     (case load_or_fetch env use_cache w of
        (Inl e, w1) \<Rightarrow> (Some e, w1)
      | (Inr value_sets, w1) \<Rightarrow>
          produce env artefact format field_delimiter code_delimiter json_indent value_sets w1)"

section \<open>Example records\<close>

text \<open>
  The record of the specification's end-to-end example: two concepts under
  \<open>SNOMEDCT\<close>, and a purpose of four labelled clauses.
\<close>

definition asthma_sct :: value_set where
  "asthma_sct =
     \<lparr>vs_displayName = ''Asthma SCT'',
      vs_ID = ''2.16.840.1.113762.1.4.1'',
      vs_version = ''20210101'',
      vs_Purpose = ''(Clinical Focus: asthma),(Inclusion Criteria: snomed),(Data Element Scope: condition),(Exclusion Criteria: none)'',
      vs_RevisionDate = ''2021-01-01'',
      vs_Source = ''NLM'',
      vs_Type = ''Extensional'',
      vs_Concept = [\<lparr>c_code = ''123'', c_codeSystemName = ''SNOMEDCT''\<rparr>,
                    \<lparr>c_code = ''456'', c_codeSystemName = ''SNOMEDCT''\<rparr>],
      vs_columns = []\<rparr>"

text \<open>The same record with concepts of two code systems, interleaved.\<close>

definition asthma_mixed :: value_set where
  "asthma_mixed =
     asthma_sct\<lparr>vs_Concept :=
       [\<lparr>c_code = ''123'', c_codeSystemName = ''SNOMEDCT''\<rparr>,
        \<lparr>c_code = ''J45'', c_codeSystemName = ''ICD10CM''\<rparr>,
        \<lparr>c_code = ''456'', c_codeSystemName = ''SNOMEDCT''\<rparr>]\<rparr>"


text \<open>A record whose four labels all stand in its first clause.\<close>

definition unpunctuated :: value_set where
  "unpunctuated =
     asthma_sct\<lparr>vs_Purpose :=
       ''(Clinical Focus: a(Inclusion Criteria: b(Data Element Scope: c(Exclusion Criteria: d''\<rparr>"

text \<open>A record with no concept entry.\<close>

definition no_concepts :: value_set where
  "no_concepts = asthma_sct\<lparr>vs_Concept := []\<rparr>"

definition new_year :: clock where
  "new_year =
     \<lparr>ymd_slash = ''2021/01/01'', ymd_dot = ''2021.01.01'',
      now_str = ''2021-01-01 10:11:12.123456''\<rparr>"

text \<open>A ticket server that answers the request for \<open>TGT-1\<close> with status 500 and no body.\<close>

definition refusing_server :: network where
  "refusing_server =
     [(service_ticket_request ''TGT-1'', \<lparr>rs_status_code = 500, rs_text = ''''\<rparr>)]"

text \<open>
  An authentication server, with what the two libraries make of its answer: a page
  whose only form posts to the grant's URL.
\<close>

definition login_server :: network where
  "login_server =
     [(api_key_request ''my-key'',
       \<lparr>rs_status_code = 201, rs_text = ''<html><form action=...></form></html>''\<rparr>)]"

definition login_page_tags :: "string \<Rightarrow> tag list" where
  "login_page_tags page =
     [\<lparr>tag_name = ''html'', tag_attrs = []\<rparr>,
      \<lparr>tag_name = ''form'',
       tag_attrs = [(''action'', ''https://utslogin.nlm.nih.gov/cas/v1/api-key/TGT-42-cas''),
                    (''method'', ''POST'')]\<rparr>]"

definition login_url_path :: "string \<Rightarrow> error + string option" where
  "login_url_path u = Inr (Some ''/cas/v1/api-key/TGT-42-cas'')"

text \<open>
  A template of the shape \<open>vsac_to_fhir\<close> relies on, and two records with the
  \<open>valueSet.*\<close> columns.
\<close>

definition fhir_template_fields :: "(string \<times> json) list" where
  "fhir_template_fields =
     [(''resourceType'', JStr ''ValueSet''),
      (''id'', JNull),
      (''url'', JStr ''http://example.org/fhir/ValueSet/{}''),
      (''name'', JNull),
      (''title'', JNull),
      (''status'', JNull),
      (''description'', JNull)]"

definition fhir_template_store :: template_store where
  "fhir_template_store =
     \<lparr>text_obj = [(''status'', JStr ''generated''), (''div'', JStr ''<div>{}</div>'')],
      compose_obj = [(''include'', JArr [JObj []])]\<rparr>"

definition asthma_columns :: value_set where
  "asthma_columns =
     asthma_sct\<lparr>vs_columns :=
       [(''valueSet.id'', [''1'']),
        (''valueSet.name'', [''Asthma'']),
        (''valueSet.description'', [''asthma codes'']),
        (''valueSet.status'', [''active'']),
        (''valueSet.codeSystem'', [''SNOMEDCT'']),
        (''valueSet.codeSystemVersion'', [''2021''])]\<rparr>"

definition copd_columns :: value_set where
  "copd_columns =
     asthma_sct\<lparr>vs_columns :=
       [(''valueSet.id'', [''2'']),
        (''valueSet.name'', [''COPD'']),
        (''valueSet.description'', [''copd codes'']),
        (''valueSet.status'', [''draft'']),
        (''valueSet.codeSystem'', [''ICD10CM'']),
        (''valueSet.codeSystemVersion'', [''2020''])]\<rparr>"

text \<open>
  A \<open>to_csv\<close> that refuses a separator that is not one character, as the csv
  writer does, and accepts every other call.
\<close>

definition one_character_separator :: "string \<Rightarrow> string \<Rightarrow> row list \<Rightarrow> error option" where
  "one_character_separator outpath sep rows = (if length sep = 1 then None else Some TypeError)"

text \<open>
  Collaborators that all fail, collaborators that answer with two records, and
  worlds with and without a cache file.
\<close>

definition offline :: env where
  "offline =
     \<lparr>e_sheet_oids = Inl (External ''offline''),
      e_tgt = Inl (External ''offline''),
      e_get_value_sets = (\<lambda>object_ids tgt. Inl (External ''offline'')),
      e_clock = new_year,
      e_template_fields = fhir_template_fields,
      e_output_dir = ''output'',
      e_to_csv = one_character_separator\<rparr>"

definition online :: env where
  "online =
     \<lparr>e_sheet_oids = Inr [''2.16.840.1.113762.1.4.1'', '''', ''2.16.840.1.113762.1.4.2''],
      e_tgt = Inr ''TGT-42-cas'',
      e_get_value_sets = (\<lambda>object_ids tgt.
         Inr [(''ns0:RetrieveMultipleValueSetsResponse'',
               [(''ns0:DescribedValueSet'', [asthma_sct, asthma_mixed])])]),
      e_clock = new_year,
      e_template_fields = fhir_template_fields,
      e_output_dir = ''output'',
      e_to_csv = one_character_separator\<rparr>"

definition no_cache :: world where
  "no_cache = \<lparr>w_cache = None, w_store = fhir_template_store, w_dirs = [], w_events = []\<rparr>"

definition cached :: "value_set list \<Rightarrow> world" where
  "cached value_sets =
     \<lparr>w_cache = Some (Pickled value_sets), w_store = fhir_template_store, w_dirs = [],
      w_events = []\<rparr>"

text \<open>A string with no brace: \<open>format\<close> finds no field in it.\<close>

definition brace_free :: "string \<Rightarrow> bool" where
  "brace_free s = (CHR ''{'' \<notin> set s \<and> CHR ''}'' \<notin> set s)"

section \<open>Basic facts\<close>

lemma then_do_Inr [simp]: "then_do (Inr x) f = f x"
  by (simp add: then_do_def)

lemma then_do_Inl [simp]: "then_do (Inl e) f = Inl e"
  by (simp add: then_do_def)

lemma then_do_eq_Inr: "then_do m f = Inr y \<longleftrightarrow> (\<exists>x. m = Inr x \<and> f x = Inr y)"
  by (cases m) simp_all





lemma map_err_append:
  "map_err f (xs @ ys) =
     then_do (map_err f xs) (\<lambda>as. then_do (map_err f ys) (\<lambda>bs. Inr (as @ bs)))"
proof (induction xs)
  case Nil
  show ?case by (cases "map_err f ys") simp_all
next
  case (Cons x xs)
  show ?case
  proof (cases "f x")
    case (Inl e)
    then show ?thesis by simp
  next
    case (Inr y)
    show ?thesis
      by (cases "map_err f xs"; cases "map_err f ys") (simp_all add: Inr Cons.IH)
  qed
qed

section \<open>Schema B\<close>

text \<open>
  C1. On the record of the specification's example, whose purpose holds the four
  labelled clauses in order, \<open>vsac_to_vsac\<close> returns no Intention at all: the
  lookup of the second label in the first clause raises IndexError, where the specification
  expects each label's text to come from its own clause.
\<close>

theorem vsac_to_vsac_four_clauses_raises:
  "vsac_to_vsac new_year asthma_sct = Inl IndexError"
  by (simp add: vsac_to_vsac_def asthma_sct_def after_label_def py_index_def Let_def)

text \<open>
  C10. Whenever \<open>vsac_to_vsac\<close> returns, the Limitations and Provenance entries of
  its result are the same constants, whatever the record and the clock: an empty
  Exclusion Criteria and a null VSAC Note; empty strings and an empty list.
\<close>

theorem vsac_to_vsac_constant_parts:
  assumes "vsac_to_vsac clk v = Inr d"
  shows "dict_get d ''Limitations'' =
           Inr (JObj [(''Exclusion Criteria'', JStr ''''), (''VSAC Note'', JNull)]) \<and>
         dict_get d ''Provenance'' =
           Inr (JObj [(''VSAC Steward'', JStr ''''), (''OID'', JStr ''''),
                      (''Code System(s)'', JArr []), (''Definition Type'', JStr ''''),
                      (''Definition Version'', JStr '''')])"
  using assms
  by (auto simp: vsac_to_vsac_def Let_def then_do_eq_Inr dict_get_def)

theorem vsac_to_vsac_constant_parts_witness:
  "(\<exists>d. vsac_to_vsac new_year unpunctuated = Inr d \<and>
        dict_get d ''Limitations'' =
           Inr (JObj [(''Exclusion Criteria'', JStr ''''), (''VSAC Note'', JNull)]) \<and>
        dict_get d ''Provenance'' =
           Inr (JObj [(''VSAC Steward'', JStr ''''), (''OID'', JStr ''''),
                      (''Code System(s)'', JArr []), (''Definition Type'', JStr ''''),
                      (''Definition Version'', JStr '''')]))"
proof -
  obtain d where d: "vsac_to_vsac new_year unpunctuated = Inr d"
    by (simp add: vsac_to_vsac_def unpunctuated_def asthma_sct_def after_label_def
        py_index_def Let_def)
  from vsac_to_vsac_constant_parts [OF d] d show ?thesis by blast
qed

section \<open>Tabular flattener\<close>














text \<open>
  C9. A record with no concept entry contributes no row: the row loop gives it the
  empty list, and anywhere in a list of records the table built, and all that
  \<open>get_csv\<close> does and returns, is that of the list without it.
\<close>

theorem get_csv_no_concepts_no_rows:
  assumes "vs_Concept v = []"
  shows "value_set_rows clk code_delimiter v = Inr [] \<and>
         table_rows clk (before @ v # after) code_delimiter =
           table_rows clk (before @ after) code_delimiter \<and>
         get_csv env (before @ v # after) field_delimiter code_delimiter w =
           get_csv env (before @ after) field_delimiter code_delimiter w"
proof -
  have none: "value_set_rows c code_delimiter v = Inr []" for c
    using assms by (simp add: value_set_rows_def)
  have same: "table_rows c (before @ v # after) code_delimiter =
        table_rows c (before @ after) code_delimiter" for c
    unfolding table_rows_def map_err_append
    by (cases "map_err (value_set_rows c code_delimiter) before";
        cases "map_err (value_set_rows c code_delimiter) after")
       (simp_all add: none)
  show ?thesis
    by (simp add: none same get_csv_def)
qed

theorem get_csv_no_concepts_no_rows_witness:
  "vs_Concept no_concepts = [] \<and>
   value_set_rows new_year ''|'' no_concepts = Inr [] \<and>
   table_rows new_year ([asthma_sct] @ no_concepts # [asthma_mixed]) ''|'' =
     table_rows new_year ([asthma_sct] @ [asthma_mixed]) ''|'' \<and>
   get_csv online ([asthma_sct] @ no_concepts # [asthma_mixed]) '','' ''|'' no_cache =
     get_csv online ([asthma_sct] @ [asthma_mixed]) '','' ''|'' no_cache"
proof -
  have h: "vs_Concept no_concepts = []"
    by (simp add: no_concepts_def)
  from get_csv_no_concepts_no_rows
         [OF h, of new_year "''|''" "[asthma_sct]" "[asthma_mixed]" online "'',''" no_cache] h
  show ?thesis by simp
qed

text \<open>
  The write is part of \<open>get_csv\<close>: with a \<open>to_csv\<close> that refuses a
  separator of two characters, the call raises even on an empty table, after the
  directory of the day is made.
\<close>

lemma get_csv_bad_separator_raises:
  "get_csv online [no_concepts] ''||'' ''|'' no_cache =
     (Inl TypeError,
      no_cache\<lparr>w_dirs := [''output/2021.01.01''],
                w_events := [Make_dir ''output/2021.01.01'',
                             Write_table ''output/2021.01.01/list_of_codes.tsv'' ''||'' []]\<rparr>)"
  by (simp add: get_csv_def table_rows_def value_set_rows_def no_concepts_def asthma_sct_def
      online_def no_cache_def one_character_separator_def outpath_of_def outdir_of_def
      os_path_join_def new_year_def log_event_def Let_def)

section \<open>Ticket client\<close>

lemma str_split_nonempty: "str_split (s # ss) p \<noteq> []"
  by (cases p) (auto split: list.splits)

lemma split_slash_none: "CHR ''/'' \<notin> set p \<Longrightarrow> str_split ''/'' p = [p]"
  by (induction p) auto

lemma split_slash_some: "CHR ''/'' \<in> set p \<Longrightarrow> \<exists>a b bs. str_split ''/'' p = a # b # bs"
proof (induction p)
  case Nil
  then show ?case by simp
next
  case (Cons x xs)
  show ?case
  proof (cases "x = CHR ''/''")
    case True
    obtain b bs where "str_split ''/'' xs = b # bs"
      using str_split_nonempty [of "CHR ''/''" "[]" xs] by (cases "str_split ''/'' xs") auto
    with True show ?thesis by simp
  next
    case False
    with Cons.prems have "CHR ''/'' \<in> set xs" by simp
    from Cons.IH [OF this] obtain a b bs where "str_split ''/'' xs = a # b # bs" by blast
    with False show ?thesis by simp
  qed
qed

text \<open>The last piece of a path split on \<open>/\<close> is what follows its last \<open>/\<close>.\<close>

lemma last_split_slash: "last (str_split ''/'' p) = after_last_slash p"
proof (induction p)
  case Nil
  show ?case by (simp add: after_last_slash_def)
next
  case (Cons x xs)
  have ne: "str_split ''/'' xs \<noteq> []" by (rule str_split_nonempty)
  show ?case
  proof (cases "x = CHR ''/''")
    case True
    have "after_last_slash (x # xs) = after_last_slash xs"
      using True
      by (auto simp add: after_last_slash_def takeWhile_append
          takeWhile_eq_all_conv [THEN iffD2, symmetric])
    with True Cons ne show ?thesis by simp
  next
    case False
    show ?thesis
    proof (cases "CHR ''/'' \<in> set xs")
      case True
      from split_slash_some [OF this] obtain a b bs where sp: "str_split ''/'' xs = a # b # bs"
        by blast
      have "after_last_slash (x # xs) = after_last_slash xs"
        using True by (auto simp add: after_last_slash_def takeWhile_append)
      with False Cons sp show ?thesis by simp
    next
      case no: False
      have "after_last_slash (x # xs) = x # xs"
        using no False by (simp add: after_last_slash_def takeWhile_append)
      with False no show ?thesis by (simp add: split_slash_none)
    qed
  qed
qed

lemma after_last_slash_no_slash: "CHR ''/'' \<notin> set (after_last_slash p)"
  unfolding after_last_slash_def
  by (metis (mono_tags, lifting) set_rev set_takeWhileD)

lemma after_last_slash_whole:
  assumes "CHR ''/'' \<notin> set p"
  shows "after_last_slash p = p"
proof -
  have all: "takeWhile (\<lambda>c. c \<noteq> CHR ''/'') (rev p) = rev p"
    using assms by (intro takeWhile_eq_all_conv [THEN iffD2]) auto
  show ?thesis unfolding after_last_slash_def by (simp only: all rev_rev_ident)
qed

lemma after_last_slash_suffix:
  assumes "CHR ''/'' \<in> set p"
  shows "\<exists>pre. p = pre @ ''/'' @ after_last_slash p"
proof -
  let ?P = "\<lambda>c. c \<noteq> CHR ''/''"
  have whole: "rev p = takeWhile ?P (rev p) @ dropWhile ?P (rev p)" by simp
  have "dropWhile ?P (rev p) \<noteq> []" using assms by auto
  then obtain y ys where d: "dropWhile ?P (rev p) = y # ys"
    by (cases "dropWhile ?P (rev p)") auto
  then have "y = CHR ''/''"
    using hd_dropWhile [of ?P "rev p"] by (metis list.sel(1) list.distinct(1))
  with whole d have "rev p = takeWhile ?P (rev p) @ CHR ''/'' # ys" by simp
  then have "p = rev ys @ ''/'' @ rev (takeWhile ?P (rev p))"
    by (metis append.assoc append_Cons append_Nil rev.simps(2) rev_append rev_rev_ident)
  then show ?thesis unfolding after_last_slash_def by blast
qed

text \<open>
  C4 (amended). \<open>get_service_ticket\<close> returns whenever the request gets a
  response, whatever its status and even when its body is empty, and the ticket is
  exactly the body of the response; it raises only when the request itself raises.
\<close>

theorem get_service_ticket_returns_body:
  "(get_service_ticket net tgt = Inr ticket \<longleftrightarrow>
      (\<exists>resp. requests_post net (service_ticket_request tgt) = Inr resp \<and> rs_text resp = ticket)) \<and>
   (get_service_ticket net tgt = Inl e \<longleftrightarrow>
      requests_post net (service_ticket_request tgt) = Inl e)"
  by (cases "requests_post net (service_ticket_request tgt)")
     (auto simp: get_service_ticket_def)

text \<open>
  A response of status 500 with an empty body: \<open>get_service_ticket\<close> returns
  the empty string as the ticket.
\<close>

theorem get_service_ticket_ignores_status:
  "map_of refusing_server (service_ticket_request ''TGT-1'') =
     Some \<lparr>rs_status_code = 500, rs_text = ''''\<rparr> \<and>
   get_service_ticket refusing_server ''TGT-1'' = Inr ''''"
  by (simp add: get_service_ticket_def requests_post_def refusing_server_def)

text \<open>
  C7. When the authentication response parses to a page with a form, the first
  form has an \<open>action\<close> attribute and that URL has a path, the grant returned is
  the final segment of the path: the substring after its last \<open>/\<close> (the whole
  path when it has none).
\<close>

theorem get_ticket_granting_ticket_final_segment:
  assumes "requests_post net (api_key_request api_key) = Inr response"
      and "find (\<lambda>t. tag_name t = ''form'') (parse_html (rs_text response)) = Some form"
      and "dict_get (tag_attrs form) ''action'' = Inr tgt_url"
      and "url_path tgt_url = Inr (Some p)"
  shows "get_ticket_granting_ticket parse_html url_path net api_key = Inr (after_last_slash p) \<and>
         CHR ''/'' \<notin> set (after_last_slash p) \<and>
         (if CHR ''/'' \<in> set p then \<exists>pre. p = pre @ ''/'' @ after_last_slash p
          else after_last_slash p = p)"
proof -
  have "get_ticket_granting_ticket parse_html url_path net api_key = py_last (str_split ''/'' p)"
    using assms by (simp add: get_ticket_granting_ticket_def)
  also have "\<dots> = Inr (after_last_slash p)"
    using str_split_nonempty [of "CHR ''/''" "[]" p] by (simp add: py_last_def last_split_slash)
  finally show ?thesis
    using after_last_slash_suffix [of p]
    by (auto simp: after_last_slash_no_slash after_last_slash_whole)
qed

theorem get_ticket_granting_ticket_final_segment_witness:
  "get_ticket_granting_ticket login_page_tags login_url_path login_server ''my-key'' =
     Inr ''TGT-42-cas'' \<and>
   after_last_slash ''/cas/v1/api-key/TGT-42-cas'' = ''TGT-42-cas''"
proof -
  have 1: "requests_post login_server (api_key_request ''my-key'') =
             Inr \<lparr>rs_status_code = 201, rs_text = ''<html><form action=...></form></html>''\<rparr>"
    by (simp add: requests_post_def login_server_def)
  have 2: "find (\<lambda>t. tag_name t = ''form'')
             (login_page_tags (rs_text \<lparr>rs_status_code = 201, rs_text = ''<html><form action=...></form></html>''\<rparr>)) =
           Some \<lparr>tag_name = ''form'',
                 tag_attrs = [(''action'', ''https://utslogin.nlm.nih.gov/cas/v1/api-key/TGT-42-cas''),
                              (''method'', ''POST'')]\<rparr>"
    by (simp add: login_page_tags_def)
  have 3: "dict_get (tag_attrs \<lparr>tag_name = ''form'',
                 tag_attrs = [(''action'', ''https://utslogin.nlm.nih.gov/cas/v1/api-key/TGT-42-cas''),
                              (''method'', ''POST'')]\<rparr>) ''action'' =
           Inr ''https://utslogin.nlm.nih.gov/cas/v1/api-key/TGT-42-cas''"
    by (simp add: dict_get_def)
  have 4: "login_url_path ''https://utslogin.nlm.nih.gov/cas/v1/api-key/TGT-42-cas'' =
             Inr (Some ''/cas/v1/api-key/TGT-42-cas'')"
    by (simp add: login_url_path_def)
  have 5: "after_last_slash ''/cas/v1/api-key/TGT-42-cas'' = ''TGT-42-cas''"
    by (simp add: after_last_slash_def)
  from get_ticket_granting_ticket_final_segment
         [where parse_html = login_page_tags and url_path = login_url_path, OF 1 2 3 4] 5
  show ?thesis by simp
qed

section \<open>Schema A\<close>

lemma py_format_plain: "brace_free s \<Longrightarrow> py_format s args = Inr s"
  by (induction s) (auto simp: brace_free_def)

lemma py_format_one_field:
  "brace_free pre \<Longrightarrow> brace_free post \<Longrightarrow>
   py_format (pre @ ''{}'' @ post) (a # args) = Inr (pre @ a @ post)"
  by (induction pre) (auto simp: brace_free_def py_format_plain [unfolded brace_free_def])

lemma dict_get_set: "dict_get (dict_set d k v) k = Inr v"
  by (induction d) (auto simp: dict_get_def)

text \<open>
  Once a first description is formatted into the template's \<open>text.div\<close>, the
  placeholder is gone: formatting a second description into it changes nothing.
\<close>

lemma text_div_keeps_first_description:
  assumes "dict_get (text_obj st) ''div'' = Inr (JStr (pre @ ''{}'' @ post))"
      and "brace_free pre" and "brace_free post" and "brace_free a"
      and "column0 va ''valueSet.description'' = Inr a"
      and "column0 vb ''valueSet.description'' = Inr b"
  shows "\<exists>st1 st2. format_text_div va st = (Inr (), st1) \<and>
                   format_text_div vb st1 = (Inr (), st2) \<and>
                   dict_get (text_obj st2) ''div'' = Inr (JStr (pre @ a @ post))"
proof -
  let ?st1 = "st\<lparr>text_obj := dict_set (text_obj st) ''div'' (JStr (pre @ a @ post))\<rparr>"
  have 1: "format_text_div va st = (Inr (), ?st1)"
    using assms py_format_one_field [of pre post a "[]"]
    by (simp add: format_text_div_def format_method_def)
  have plain: "brace_free (pre @ a @ post)"
    using assms by (simp add: brace_free_def)
  have 2: "format_text_div vb ?st1 =
             (Inr (), ?st1\<lparr>text_obj := dict_set (text_obj ?st1) ''div'' (JStr (pre @ a @ post))\<rparr>)"
    using assms(6) plain
    by (simp add: format_text_div_def format_method_def dict_get_set py_format_plain)
  show ?thesis
    using 1 2 by (simp add: dict_get_set)
qed

text \<open>
  C2. The output of \<open>vsac_to_fhir\<close> for a record depends on the records
  converted before and after it. From the fresh template the second record's
  \<open>text.div\<close> holds its own description; after the conversion of another
  record, the same call on the same record gives a \<open>text.div\<close> holding the
  other record's description: the first call has formatted the template's own
  \<open>text\<close> dict, which the shallow copy shares. And the dict returned for the
  first record, written once the second is converted (as \<open>run\<close> does), carries
  the second record's code system and version.
\<close>

theorem vsac_to_fhir_depends_on_earlier_record:
  "converted_json fhir_template_fields copd_columns fhir_template_store =
     Inr (JObj
       [(''resourceType'', JStr ''ValueSet''), (''id'', JInt 2),
        (''url'', JStr ''http://example.org/fhir/ValueSet/2''),
        (''name'', JStr ''COPD''), (''title'', JStr ''COPD''),
        (''status'', JStr ''draft''), (''description'', JStr ''copd codes''),
        (''text'', JObj [(''status'', JStr ''generated''),
                         (''div'', JStr ''<div>copd codes</div>'')]),
        (''compose'', JObj [(''include'', JArr [JObj
           [(''system'', JStr ''ICD10CM''), (''version'', JStr ''2020''),
            (''concept'', JArr [])]])])]) \<and>
   converted_json fhir_template_fields copd_columns
       (snd (vsac_to_fhir fhir_template_fields asthma_columns fhir_template_store)) =
     Inr (JObj
       [(''resourceType'', JStr ''ValueSet''), (''id'', JInt 2),
        (''url'', JStr ''http://example.org/fhir/ValueSet/2''),
        (''name'', JStr ''COPD''), (''title'', JStr ''COPD''),
        (''status'', JStr ''draft''), (''description'', JStr ''copd codes''),
        (''text'', JObj [(''status'', JStr ''generated''),
                         (''div'', JStr ''<div>asthma codes</div>'')]),
        (''compose'', JObj [(''include'', JArr [JObj
           [(''system'', JStr ''ICD10CM''), (''version'', JStr ''2020''),
            (''concept'', JArr [])]])])]) \<and>
   fst (vsac_to_fhir fhir_template_fields asthma_columns fhir_template_store) =
     Inr [(''resourceType'', JStr ''ValueSet''), (''id'', JInt 1),
          (''url'', JStr ''http://example.org/fhir/ValueSet/1''),
          (''name'', JStr ''Asthma''), (''title'', JStr ''Asthma''),
          (''status'', JStr ''active''), (''description'', JStr ''asthma codes'')] \<and>
   fhir_json
       (snd (vsac_to_fhir fhir_template_fields copd_columns
          (snd (vsac_to_fhir fhir_template_fields asthma_columns fhir_template_store))))
       [(''resourceType'', JStr ''ValueSet''), (''id'', JInt 1),
        (''url'', JStr ''http://example.org/fhir/ValueSet/1''),
        (''name'', JStr ''Asthma''), (''title'', JStr ''Asthma''),
        (''status'', JStr ''active''), (''description'', JStr ''asthma codes'')] =
     JObj
       [(''resourceType'', JStr ''ValueSet''), (''id'', JInt 1),
        (''url'', JStr ''http://example.org/fhir/ValueSet/1''),
        (''name'', JStr ''Asthma''), (''title'', JStr ''Asthma''),
        (''status'', JStr ''active''), (''description'', JStr ''asthma codes''),
        (''text'', JObj [(''status'', JStr ''generated''),
                         (''div'', JStr ''<div>asthma codes</div>'')]),
        (''compose'', JObj [(''include'', JArr [JObj
           [(''system'', JStr ''ICD10CM''), (''version'', JStr ''2020''),
            (''concept'', JArr [])]])])]"
  by code_simp

section \<open>Run orchestrator\<close>

lemma events_log_event [simp]: "w_events (log_event ev w) = w_events w @ [ev]"
  by (simp add: log_event_def)

lemma cache_log_event [simp]: "w_cache (log_event ev w) = w_cache w"
  by (simp add: log_event_def)

lemma is_network_simps [simp]:
  "is_network Read_sheet" "is_network Request_grant" "is_network (Fetch_value_sets object_ids tgt)"
  "\<not> is_network Load_cache" "\<not> is_network (Store_cache records)"
  "\<not> is_network (Make_dir dir)"
  "\<not> is_network (Write_table outpath sep rows)" "\<not> is_network (Write_json file_name indent j)"
  by (simp_all add: is_network_def)



lemma load_hit:
  "w_cache w = Some f \<Longrightarrow>
   load_or_fetch env True w =
     (case pickle_load f of Inl e \<Rightarrow> Inl e | Inr records \<Rightarrow> Inr records, log_event Load_cache w)"
  by (cases "pickle_load f") (simp_all add: load_or_fetch_def)

lemma load_miss: "\<not> use_cache \<or> w_cache w = None \<Longrightarrow> load_or_fetch env use_cache w = fetch env w"
  by (auto simp: load_or_fetch_def)


text \<open>A fetch that returns has stored what it returns.\<close>

lemma fetch_stores:
  assumes "fetch env w = (Inr records, w1)"
  shows "w_cache w1 = Some (Pickled records)"
  using assms
  by (auto simp: fetch_def Let_def log_event_def split: sum.splits)

text \<open>
  C5. In JSON mode with the OMOP format no file is written: the save loop reads
  \<open>d['name']\<close>, a key that the dict made by \<open>vsac_to_vsac\<close> does not have
  (its name is under \<open>'Concept Set Name'\<close>), so the run ends with KeyError
  before the first file is opened, where the specification expects a file named after the
  record's display name.
\<close>

theorem run_json_omop_writes_no_file:
  "run offline ''json'' ''omop'' '','' ''|'' 4 True (cached [unpunctuated]) =
     (Some (KeyError ''name''), log_event Load_cache (cached [unpunctuated]))"
  by code_simp

text \<open>The same holds of every dict that \<open>vsac_to_vsac\<close> returns.\<close>

lemma omop_dict_has_no_name:
  "vsac_to_vsac clk v = Inr d \<Longrightarrow> artifact_name (Plain d) = Inl (KeyError ''name'')"
  by (auto simp: vsac_to_vsac_def Let_def then_do_eq_Inr artifact_name_def dict_get_def)



text \<open>
  A run that fetches leaves in the cache file the very list it fetched, and a
  later run with caching enabled takes its records from that file, whatever its
  collaborators would answer. (The cache file is modelled by the list pickled into
  it: that \<open>pickle.load\<close> gives back what \<open>pickle.dump\<close> was given is
  the library's contract, taken as given and not proved here.)
\<close>

lemma fetched_list_is_cached:
  assumes "\<not> use_cache \<or> w_cache w = None"
      and "load_or_fetch env use_cache w = (Inr fetched, w1)"
  shows "w_cache w1 = Some (Pickled fetched) \<and>
         Store_cache fetched \<in> set (w_events w1) \<and>
         load_or_fetch env' True w1 = (Inr fetched, log_event Load_cache w1) \<and>
         run env' artefact format field_delimiter code_delimiter json_indent True w1 =
           produce env' artefact format field_delimiter code_delimiter json_indent fetched
             (log_event Load_cache w1)"
proof -
  from assms have f: "fetch env w = (Inr fetched, w1)"
    by (simp add: load_miss)
  then have c: "w_cache w1 = Some (Pickled fetched)"
    by (rule fetch_stores)
  have s: "Store_cache fetched \<in> set (w_events w1)"
    using f by (auto simp: fetch_def Let_def log_event_def split: sum.splits)
  have l: "load_or_fetch env' True w1 = (Inr fetched, log_event Load_cache w1)"
    using load_hit [OF c, of env'] by (simp add: pickle_load_def)
  show ?thesis
    using c s l by (simp add: run_def)
qed


end
